theory Spec2Isabelle
  imports Main "HOL-Library.Word"
begin

unbundle bit_operations_syntax

section \<open>Machine types and console output of thingy.c\<close>

text \<open>
  \<open>uint8_t\<close> and \<open>uint16_t\<close> are words of 8 and 16 bits. The C type \<open>int\<close> is a
  32-bit two's complement word; \<open>sint\<close> gives the number that \<open>%d\<close> prints.
\<close>

type_synonym u8 = "8 word"
type_synonym u16 = "16 word"
type_synonym c_int = "32 word"

text \<open>The conversion \<open>(int)value[i]\<close> of an unsigned byte: zero extension.\<close>

definition int_of_u8 :: "u8 \<Rightarrow> c_int" where
  "int_of_u8 b = ucast b"

text \<open>
  The program's only observable effect is text on the console. One constructor stands
  for one \<open>printf\<close>/\<open>PRLOG\<close>/\<open>fprintf\<close> call of the source, and carries the arguments
  of that call in the order of the format string:
  \<^item> \<open>Temp_received a b\<close>: \<open>"Notification: Temp received:  %d.%d degCelcius\n"\<close>
  \<^item> \<open>Pressure_received h f\<close>: \<open>"Notification: Pressure received: %d.%d hPa\n"\<close>
  \<^item> \<open>Humidity_received p\<close>: \<open>"Notification: Humidity received: %d %\n"\<close>
  \<^item> \<open>Gas_received e t\<close>: \<open>"Notification: Gas received: eCO2 ppm: %d, TVOC ppb: %d %\n"\<close>
  \<^item> \<open>Handle_value h\<close>: \<open>"\n\tHandle Value Not/Ind: 0x%04x - "\<close>
  \<^item> \<open>Zero_bytes\<close>: \<open>"(0 bytes)\n"\<close>
  \<^item> \<open>Byte_count n\<close>: \<open>"(%u bytes): "\<close>
  \<^item> \<open>Hex_byte b\<close>: \<open>"%02x "\<close>
  \<^item> \<open>Newline\<close>: \<open>"\n"\<close>
  \<^item> \<open>Register_error_code e\<close>:
    \<open>"Failed to register notify handler - error code: 0x%02x\n"\<close>
  \<^item> \<open>Gatt_not_initialized\<close>: \<open>"GATT client not initialized\n"\<close>
  \<^item> \<open>Parse_error s\<close>: \<open>"parse error: %s\n"\<close>
  \<^item> \<open>Invalid_value_handle s\<close>: \<open>"Invalid value handle: %s\n"\<close>
  \<^item> \<open>Register_failed\<close>: \<open>"Failed to register notify handler\n"\<close>
  \<^item> \<open>Device_disconnected err\<close>: \<open>"Device disconnected: %s\n"\<close> with
    \<open>strerror(err)\<close>
  \<^item> \<open>Service_event str uuid start end\<close>:
    \<open>"%s - UUID: %s start: 0x%04x end: 0x%04x\n"\<close>
  \<^item> \<open>Att_debug prefix str\<close> and \<open>Gatt_debug prefix str\<close>: the two coloured debug lines
  \<^item> \<open>Discovery_failed e\<close>:
    \<open>"GATT discovery procedures failed - error code: 0x%02x\n"\<close>
  \<^item> \<open>Discovery_complete\<close>: \<open>"GATT discovery procedures complete\n"\<close>
  \<^item> \<open>Service_changed start end\<close>:
    \<open>"\nService Changed handled - start: 0x%04x end: 0x%04x\n"\<close>
  \<^item> \<open>Services_in_range start end\<close>: all that \<open>print_service\<close> prints while
    \<open>gatt_db_foreach_service_in_range\<close> walks the library's database between the two
    handles (the database content is the library's; the text is not modelled further)
  \<^item> \<open>Stderr msg\<close>: \<open>fprintf(stderr, msg)\<close> with a fixed message, written without its
    final line feed
\<close>

datatype out =
    Temp_received int int
  | Pressure_received int int
  | Humidity_received int
  | Gas_received int int
  | Handle_value u16
  | Zero_bytes
  | Byte_count nat
  | Hex_byte u8
  | Newline
  | Register_error_code u16
  | Gatt_not_initialized
  | Parse_error string
  | Invalid_value_handle string
  | Register_failed
  | Device_disconnected int
  | Service_event string string u16 u16
  | Att_debug string string
  | Gatt_debug string string
  | Discovery_failed u8
  | Discovery_complete
  | Service_changed u16 u16
  | Services_in_range u16 u16
  | Stderr string

section \<open>Reading the notification buffer\<close>

text \<open>
  \<open>notify_cb\<close> receives a pointer \<open>value\<close> and the number \<open>length\<close> of bytes behind it.
  The model passes the buffer as the list of exactly these bytes, so \<open>length\<close> is the
  length of the list. An access \<open>value[i]\<close> with \<open>i\<close> at or past \<open>length\<close> leaves the
  buffer: C gives it no meaning, and the model returns the fault \<open>Out_of_bounds_read i\<close>.
\<close>

datatype fault = Out_of_bounds_read nat

definition rd :: "u8 list \<Rightarrow> nat \<Rightarrow> fault + u8" where
  "rd value i = (if i < length value then Inr (value ! i) else Inl (Out_of_bounds_read i))"

definition bind_r :: "fault + 'a \<Rightarrow> ('a \<Rightarrow> fault + 'b) \<Rightarrow> fault + 'b" where
  "bind_r m f = (case m of Inl e \<Rightarrow> Inl e | Inr x \<Rightarrow> f x)"

text \<open>
  The loop \<open>for (i = 0; i < length; i++) printf("%02x ", value[i]);\<close> of the fallback
  branch, started at \<open>i\<close> with the output \<open>acc\<close> printed so far.
\<close>

function hex_loop :: "u8 list \<Rightarrow> nat \<Rightarrow> nat \<Rightarrow> out list \<Rightarrow> fault + out list" where
  "hex_loop value len i acc =
     (if i < len then
        (case rd value i of
           Inl e \<Rightarrow> Inl e
         | Inr b \<Rightarrow> hex_loop value len (i + 1) (acc @ [Hex_byte b]))
      else Inr acc)"
  by pat_completeness auto
termination
  by (relation "measure (\<lambda>(value, len, i, acc). len - i)") auto

declare hex_loop.simps [simp del]

section \<open>The value-delivery callback\<close>

text \<open>
  \<open>notify_cb(value_handle, value, length, user_data)\<close>, lines 73 to 106. The branches are
  taken on the handle alone; none of the four sensor branches looks at \<open>length\<close>. The
  operands of \<open>|\<close> and the arguments of \<open>printf\<close> are read in the order they are written
  (C leaves the order open; it only decides which index a fault names).

  The shifts are done on \<open>int\<close>. For \<open>value[3] \<ge> 128\<close> the shift by 24 reaches the sign
  bit; the model computes the two's complement bit pattern, as gcc and clang do.
\<close>

definition notify_cb :: "u16 \<Rightarrow> u8 list \<Rightarrow> fault + out list" where
  "notify_cb value_handle value =
     (if value_handle = 0x001f then
        bind_r (rd value 0) (\<lambda>v0.
        bind_r (rd value 1) (\<lambda>v1.
          Inr [Temp_received (sint (int_of_u8 v0)) (sint (int_of_u8 v1))]))
      else if value_handle = 0x0022 then
        bind_r (rd value 3) (\<lambda>v3.
        bind_r (rd value 2) (\<lambda>v2.
        bind_r (rd value 1) (\<lambda>v1.
        bind_r (rd value 0) (\<lambda>v0.
          let hpa = push_bit 24 (int_of_u8 v3) OR push_bit 16 (int_of_u8 v2)
                      OR push_bit 8 (int_of_u8 v1) OR int_of_u8 v0
          in bind_r (rd value 4) (\<lambda>v4.
               Inr [Pressure_received (sint hpa) (sint (int_of_u8 v4))])))))
      else if value_handle = 0x0025 then
        bind_r (rd value 0) (\<lambda>v0.
          Inr [Humidity_received (sint (int_of_u8 v0))])
      else if value_handle = 0x0028 then
        bind_r (rd value 1) (\<lambda>v1.
        bind_r (rd value 0) (\<lambda>v0.
          let eco2 = push_bit 8 (int_of_u8 v1) OR int_of_u8 v0
          in bind_r (rd value 3) (\<lambda>v3.
             bind_r (rd value 2) (\<lambda>v2.
               let tvoc = push_bit 8 (int_of_u8 v3) OR int_of_u8 v2
               in Inr [Gas_received (sint eco2) (sint tvoc)]))))
      else if length value = 0 then
        Inr [Handle_value value_handle, Zero_bytes]
      else
        bind_r (hex_loop value (length value) 0
                  [Handle_value value_handle, Byte_count (length value)])
          (\<lambda>printed. Inr (printed @ [Newline])))"

section \<open>The C library calls of the command parser\<close>

text \<open>
  \<open>parse_args\<close> and \<open>cmd_register_notify\<close> use \<open>strsep\<close> and \<open>strtol\<close> of the C
  library. They are modelled after their manual pages; a C string is the list of its
  characters before the terminating NUL.

  \<open>strsep(&str, " \t")\<close>: with \<open>str\<close> NULL the result is NULL. Otherwise the token runs
  up to the first blank or tab, which is overwritten by NUL, and \<open>str\<close> moves behind it;
  without a delimiter the token is the whole string and \<open>str\<close> becomes NULL. The
  function returns the token and the new \<open>str\<close>.
\<close>

definition is_delim :: "char \<Rightarrow> bool" where
  "is_delim c = (c = CHR '' '' \<or> c = CHR 0x09)"

definition strsep :: "string option \<Rightarrow> string option \<times> string option" where
  "strsep stringp =
     (case stringp of
        None \<Rightarrow> (None, None)
      | Some s \<Rightarrow>
          (case dropWhile (\<lambda>c. \<not> is_delim c) s of
             [] \<Rightarrow> (Some s, None)
           | d # rest \<Rightarrow> (Some (takeWhile (\<lambda>c. \<not> is_delim c) s), Some rest)))"

text \<open>
  The measure of the tokenizer loop: the characters still to be scanned.
\<close>

definition str_size :: "string option \<Rightarrow> nat" where
  "str_size stringp = (case stringp of None \<Rightarrow> 0 | Some s \<Rightarrow> Suc (length s))"

lemma strsep_shrinks:
  assumes eq: "strsep stringp = (Some tok, rest)"
  shows "str_size rest < str_size stringp"
proof (cases stringp)
  case None
  then show ?thesis using eq by (simp add: strsep_def)
next
  case (Some s)
  show ?thesis
  proof (cases "dropWhile (\<lambda>c. \<not> is_delim c) s")
    case Nil
    have "strsep stringp = (Some s, None)"
      unfolding strsep_def Some by (simp only: Nil option.case list.case)
    then show ?thesis using eq Some by (simp add: str_size_def)
  next
    case (Cons d r)
    have "length (dropWhile (\<lambda>c. \<not> is_delim c) s) \<le> length s"
      by (rule length_dropWhile_le)
    then have "length r < length s" using Cons by simp
    moreover have "strsep stringp = (Some (takeWhile (\<lambda>c. \<not> is_delim c) s), Some r)"
      unfolding strsep_def Some by (simp only: Cons option.case list.case)
    ultimately show ?thesis using eq Some by (auto simp add: str_size_def)
  qed
qed

text \<open>
  \<open>parse_args\<close>, lines 54 to 70. The loop
  \<open>for (ap = argv; (*ap = strsep(&str, " \t")) != NULL;)\<close> skips empty tokens, counts and
  stores every other one, and returns \<open>false\<close> as soon as the count passes
  \<open>expected_argc\<close>. The result is the return value, the tokens stored in \<open>argv\<close> and
  the final \<open>*argc\<close>.
\<close>

function parse_args_loop ::
  "string option \<Rightarrow> int \<Rightarrow> string list \<Rightarrow> int \<Rightarrow> bool \<times> string list \<times> int" where
  "parse_args_loop str expected_argc argv argc =
     (case strsep str of
        (None, str') \<Rightarrow> (True, argv, argc)
      | (Some ap, str') \<Rightarrow>
          if ap = [] then parse_args_loop str' expected_argc argv argc
          else if argc + 1 > expected_argc then (False, argv @ [ap], argc + 1)
          else parse_args_loop str' expected_argc (argv @ [ap]) (argc + 1))"
  by pat_completeness auto
termination
  by (relation "measure (\<lambda>(str, expected_argc, argv, argc). str_size str)")
    (auto dest: strsep_shrinks [OF sym])

declare parse_args_loop.simps [simp del]

definition parse_args :: "string \<Rightarrow> int \<Rightarrow> int \<Rightarrow> bool \<times> string list \<times> int" where
  "parse_args str expected_argc argc = parse_args_loop (Some str) expected_argc [] argc"

text \<open>
  \<open>strtol(nptr, &endptr, 0)\<close>: white space is skipped, a sign is read, a prefix
  \<open>0x\<close> before a hexadecimal digit selects base 16, a leading \<open>0\<close> base 8, anything
  else base 10; the digits of that base are consumed and \<open>endptr\<close> is what follows them.
  Without any digit the result is 0 and \<open>endptr\<close> is \<open>nptr\<close>. A result outside \<open>long\<close>
  (64 bits, as on Linux) is clamped to \<open>LONG_MAX\<close> or \<open>LONG_MIN\<close>.
\<close>

definition is_space :: "char \<Rightarrow> bool" where
  "is_space c = (c = CHR '' '' \<or> (9 \<le> (of_char c :: nat) \<and> (of_char c :: nat) \<le> 13))"

definition digit_val :: "char \<Rightarrow> nat option" where
  "digit_val c =
     (let n = (of_char c :: nat) in
      if 48 \<le> n \<and> n \<le> 57 then Some (n - 48)
      else if 97 \<le> n \<and> n \<le> 122 then Some (n - 87)
      else if 65 \<le> n \<and> n \<le> 90 then Some (n - 55)
      else None)"

definition is_digit :: "nat \<Rightarrow> char \<Rightarrow> bool" where
  "is_digit base c = (case digit_val c of None \<Rightarrow> False | Some d \<Rightarrow> d < base)"

fun digits :: "nat \<Rightarrow> string \<Rightarrow> nat \<Rightarrow> nat \<times> string" where
  "digits base [] acc = (acc, [])"
| "digits base (c # cs) acc =
     (case digit_val c of
        None \<Rightarrow> (acc, c # cs)
      | Some d \<Rightarrow> if d < base then digits base cs (acc * base + d) else (acc, c # cs))"

definition LONG_MAX :: int where "LONG_MAX = 9223372036854775807"
definition LONG_MIN :: int where "LONG_MIN = - 9223372036854775808"

definition strtol :: "string \<Rightarrow> int \<times> string" where
  "strtol nptr =
     (let s1 = dropWhile is_space nptr;
          neg = (case s1 of [] \<Rightarrow> False | c # r \<Rightarrow> c = CHR ''-'');
          s2 = (case s1 of [] \<Rightarrow> s1 | c # r \<Rightarrow> if c = CHR ''-'' \<or> c = CHR ''+'' then r else s1);
          hex = (case s2 of
                   z # x # h # r \<Rightarrow> z = CHR ''0'' \<and> (x = CHR ''x'' \<or> x = CHR ''X'') \<and> is_digit 16 h
                 | _ \<Rightarrow> False);
          base = (if hex then 16 else if take 1 s2 = ''0'' then 8 else 10);
          s3 = (if hex then drop 2 s2 else s2)
      in if s3 = [] \<or> \<not> is_digit base (hd s3) then (0, nptr)
         else
           let (n, endptr) = digits base s3 0;
               v = (if neg then - int n else int n)
           in (max LONG_MIN (min LONG_MAX v), endptr))"


section \<open>The state of the process and of the library\<close>

text \<open>
  Modelled from the spec: the ATT transport, the attribute database and the GATT client
  (\<open>src/shared/att.c\<close>, \<open>gatt-db.c\<close>, \<open>gatt-client.c\<close>) and the main loop are not among
  the sources. They are replaced by the test double the specification describes in its
  sections 6 and 8: counters for what is allocated and released, and scripted answers
  for the calls that can fail.

  The state holds
  \<^item> the console: every line printed so far (\<open>stdout\<close> and \<open>stderr\<close> in one sequence);
  \<^item> the two globals of \<open>thingy.c\<close>, \<open>thingy_sensor\<close> and \<open>verbose\<close>;
  \<^item> of the GATT client: what \<open>bt_gatt_client_is_ready\<close> answers, the identifier
    \<open>bt_gatt_client_register_notify\<close> answers for a handle (0 is its failure value), the
    handles of the registration requests received so far, and the handles for which a
    registration succeeded and the callback is bound;
  \<^item> whether \<open>mainloop_quit\<close> was called;
  \<^item> the live objects: \<open>struct client\<close> blocks, the reference counts of the transport,
    the database and the GATT client, their registered callbacks, and whether the socket
    is still open.
\<close>

record world =
  console :: "out list"
  thingy_sensor :: int
  verbose :: bool
  gatt_ready :: bool
  notify_id :: "u16 \<Rightarrow> 32 word"
  notify_requests :: "u16 list"
  notify_bound :: "u16 list"
  mainloop_quit_called :: bool
  cli_live :: nat
  att_refs :: nat
  att_close_on_unref :: bool
  att_disconnect_cbs :: nat
  att_debug :: bool
  db_refs :: nat
  db_cbs :: nat
  gatt_refs :: nat
  gatt_ready_cbs :: nat
  gatt_service_changed_cb :: bool
  gatt_debug :: bool
  fd_open :: bool

text \<open>
  Every \<open>printf\<close>, \<open>PRLOG\<close> and \<open>fprintf(stderr, ...)\<close> appends its line to the console.
\<close>

definition printf :: "out \<Rightarrow> world \<Rightarrow> world" where
  "printf line w = w\<lparr>console := console w @ [line]\<rparr>"

text \<open>
  Modelled from the spec: \<open>is_ready() -> bool\<close> and
  \<open>register_notify(handle, ...) -> subscription_id | 0-on-failure\<close> of the GATT session
  capability. A request is recorded; a successful one binds the handle.
\<close>

definition bt_gatt_client_is_ready :: "world \<Rightarrow> bool" where
  "bt_gatt_client_is_ready w = gatt_ready w"

definition bt_gatt_client_register_notify :: "u16 \<Rightarrow> world \<Rightarrow> 32 word \<times> world" where
  "bt_gatt_client_register_notify chrc_value_handle w =
     (let reg_id = notify_id w chrc_value_handle
      in (reg_id, w\<lparr>notify_requests := notify_requests w @ [chrc_value_handle],
                notify_bound := (if reg_id = 0 then notify_bound w
                                 else notify_bound w @ [chrc_value_handle])\<rparr>))"

section \<open>Subscription\<close>

text \<open>
  \<open>register_notify_cb\<close>, lines 108 to 115: a non-zero error code is printed.
\<close>

definition register_notify_cb :: "u16 \<Rightarrow> world \<Rightarrow> world" where
  "register_notify_cb att_ecode w =
     (if att_ecode \<noteq> 0 then printf (Register_error_code att_ecode) w else w)"

text \<open>
  \<open>cmd_register_notify(cli, cmd_str)\<close>, lines 117 to 148. \<open>cli->gatt\<close> is the one GATT
  client of the state. The steps are those of the source, in its order: the readiness
  guard, the tokenizer (the message shows \<open>cmd_str\<close>, which \<open>strsep\<close> has cut at its
  first delimiter), the conversion of the token with \<open>strtol\<close> and its assignment to the
  \<open>uint16_t\<close> handle, the test of \<open>endptr\<close> and of a zero handle, and the request to the
  library.
\<close>

definition cmd_register_notify :: "string \<Rightarrow> world \<Rightarrow> world" where
  "cmd_register_notify cmd_str w =
     (if \<not> bt_gatt_client_is_ready w then printf Gatt_not_initialized w
      else
        (case parse_args cmd_str 1 0 of (ok, argv, argc) \<Rightarrow>
           if \<not> ok \<or> argc \<noteq> 1 then
             printf (Parse_error (takeWhile (\<lambda>c. \<not> is_delim c) cmd_str)) w
           else
             (case strtol (argv ! 0) of (l, endptr) \<Rightarrow>
                let value_handle = (word_of_int l :: u16) in
                if endptr \<noteq> [] \<or> value_handle = 0 then
                  printf (Invalid_value_handle (argv ! 0)) w
                else
                  (case bt_gatt_client_register_notify value_handle w of (reg_id, w') \<Rightarrow>
                     if reg_id = 0 then printf Register_failed w' else w'))))"

section \<open>The readiness callback\<close>

text \<open>
  The sensor constants of lines 25 to 28 and the handle strings of lines 295 to 298.
\<close>

definition THINGY_SENSOR_TEMPERATURE :: int where "THINGY_SENSOR_TEMPERATURE = 0"
definition THINGY_SENSOR_PRESSURE :: int where "THINGY_SENSOR_PRESSURE = 1"
definition THINGY_SENSOR_HUMIDITY :: int where "THINGY_SENSOR_HUMIDITY = 2"
definition THINGY_SENSOR_GAS :: int where "THINGY_SENSOR_GAS = 3"

definition temp_chrc_hnd :: string where "temp_chrc_hnd = ''0x001f''"
definition pressure_chrc_hnd :: string where "pressure_chrc_hnd = ''0x0022''"
definition humidity_chrc_hnd :: string where "humidity_chrc_hnd = ''0x0025''"
definition gas_chrc_hnd :: string where "gas_chrc_hnd = ''0x0028''"

text \<open>
  \<open>ready_cb(success, att_ecode, user_data)\<close>, lines 292 to 320.
\<close>

definition ready_cb :: "bool \<Rightarrow> u8 \<Rightarrow> world \<Rightarrow> world" where
  "ready_cb success att_ecode w =
     (if \<not> success then printf (Discovery_failed att_ecode) w
      else
        let w1 = printf Discovery_complete w in
        if thingy_sensor w1 = THINGY_SENSOR_TEMPERATURE then cmd_register_notify temp_chrc_hnd w1
        else if thingy_sensor w1 = THINGY_SENSOR_PRESSURE then
          cmd_register_notify pressure_chrc_hnd w1
        else if thingy_sensor w1 = THINGY_SENSOR_HUMIDITY then
          cmd_register_notify humidity_chrc_hnd w1
        else if thingy_sensor w1 = THINGY_SENSOR_GAS then cmd_register_notify gas_chrc_hnd w1
        else cmd_register_notify temp_chrc_hnd w1)"

section \<open>The other callbacks and the events of the main loop\<close>

text \<open>
  A service attribute as \<open>log_service_event\<close> reads it from the library: the UUID as
  text and the two handles.
\<close>

record service_attr =
  uuid_str :: string
  start_handle :: u16
  end_handle :: u16

text \<open>
  \<open>att_disconnect_cb\<close> (153), \<open>log_service_event\<close> (160), \<open>service_added_cb\<close> (175),
  \<open>service_removed_cb\<close> (180), \<open>att_debug_cb\<close> (185), \<open>gatt_debug_cb\<close> (192),
  \<open>service_changed_cb\<close> (323) and \<open>signal_cb\<close> (416).
\<close>

definition mainloop_quit :: "world \<Rightarrow> world" where
  "mainloop_quit w = w\<lparr>mainloop_quit_called := True\<rparr>"

definition att_disconnect_cb :: "int \<Rightarrow> world \<Rightarrow> world" where
  "att_disconnect_cb err w = mainloop_quit (printf (Device_disconnected err) w)"

definition log_service_event :: "service_attr \<Rightarrow> string \<Rightarrow> world \<Rightarrow> world" where
  "log_service_event attr str w =
     printf (Service_event str (uuid_str attr) (start_handle attr) (end_handle attr)) w"

definition service_added_cb :: "service_attr \<Rightarrow> world \<Rightarrow> world" where
  "service_added_cb attr w = log_service_event attr ''Service Added'' w"

definition service_removed_cb :: "service_attr \<Rightarrow> world \<Rightarrow> world" where
  "service_removed_cb attr w = log_service_event attr ''Service Removed'' w"

definition att_debug_cb :: "string \<Rightarrow> string \<Rightarrow> world \<Rightarrow> world" where
  "att_debug_cb str prefix w = printf (Att_debug prefix str) w"

definition gatt_debug_cb :: "string \<Rightarrow> string \<Rightarrow> world \<Rightarrow> world" where
  "gatt_debug_cb str prefix w = printf (Gatt_debug prefix str) w"

definition service_changed_cb :: "u16 \<Rightarrow> u16 \<Rightarrow> world \<Rightarrow> world" where
  "service_changed_cb start_h end_h w =
     printf (Services_in_range start_h end_h) (printf (Service_changed start_h end_h) w)"

definition SIGINT :: int where "SIGINT = 2"
definition SIGTERM :: int where "SIGTERM = 15"

definition signal_cb :: "int \<Rightarrow> world \<Rightarrow> world" where
  "signal_cb signum w = (if signum = SIGINT \<or> signum = SIGTERM then mainloop_quit w else w)"

text \<open>
  The events the main loop delivers, one for each callback the program registers:
  \<open>ready_cb\<close> and \<open>service_changed_cb\<close> (lines 396, 397), \<open>notify_cb\<close> and
  \<open>register_notify_cb\<close> (line 141), \<open>service_added_cb\<close> and \<open>service_removed_cb\<close> (387),
  \<open>att_disconnect_cb\<close> (361), the debug callbacks with their prefixes (391, 392) and
  \<open>signal_cb\<close> (625). \<open>deliver\<close> runs the callback of an event; what \<open>notify_cb\<close> prints
  goes to the console.
\<close>

datatype event =
    Ev_ready bool u8
  | Ev_notify u16 "u8 list"
  | Ev_register_result u16
  | Ev_service_changed u16 u16
  | Ev_service_added service_attr
  | Ev_service_removed service_attr
  | Ev_disconnect int
  | Ev_att_debug string
  | Ev_gatt_debug string
  | Ev_signal int

fun deliver :: "event \<Rightarrow> world \<Rightarrow> fault + world" where
  "deliver (Ev_ready success att_ecode) w = Inr (ready_cb success att_ecode w)"
| "deliver (Ev_notify value_handle value) w =
     bind_r (notify_cb value_handle value)
       (\<lambda>printed. Inr (w\<lparr>console := console w @ printed\<rparr>))"
| "deliver (Ev_register_result att_ecode) w = Inr (register_notify_cb att_ecode w)"
| "deliver (Ev_service_changed start_h end_h) w = Inr (service_changed_cb start_h end_h w)"
| "deliver (Ev_service_added attr) w = Inr (service_added_cb attr w)"
| "deliver (Ev_service_removed attr) w = Inr (service_removed_cb attr w)"
| "deliver (Ev_disconnect err) w = Inr (att_disconnect_cb err w)"
| "deliver (Ev_att_debug str) w = Inr (att_debug_cb str ''att: '' w)"
| "deliver (Ev_gatt_debug str) w = Inr (gatt_debug_cb str ''gatt: '' w)"
| "deliver (Ev_signal signum) w = Inr (signal_cb signum w)"

section \<open>Creation and destruction of the client\<close>

text \<open>
  \<open>struct client\<close>, lines 44 to 51. There is one transport, one database and one GATT
  client, so a pointer field only says whether it is NULL (\<open>False\<close>) or points to that
  object (\<open>True\<close>).
\<close>

record client =
  fd :: int
  att :: bool
  db :: bool
  gatt :: bool
  reliable_session_id :: nat

text \<open>
  The scripted answers of the six calls of \<open>client_create\<close> that can fail.
\<close>

record outcomes =
  new0_ok :: bool
  bt_att_new_ok :: bool
  bt_att_set_close_on_unref_ok :: bool
  bt_att_register_disconnect_ok :: bool
  gatt_db_new_ok :: bool
  bt_gatt_client_new_ok :: bool

text \<open>
  Modelled from the spec: the calls of the library's interface that \<open>client_create\<close> and
  \<open>client_destroy\<close> make. An object is created with one reference; \<open>unref\<close> of NULL
  does nothing; the last \<open>unref\<close> frees the object with its callbacks, and the transport
  then closes the socket if close-on-unref was set; the GATT client holds a reference to
  the transport and to the database for as long as it lives; a call that fails leaves
  the state as it was.
\<close>

definition new0_client :: "bool \<Rightarrow> world \<Rightarrow> client option \<times> world" where
  "new0_client ok w =
     (if ok then
        (Some \<lparr>fd = 0, att = False, db = False, gatt = False, reliable_session_id = 0\<rparr>,
         w\<lparr>cli_live := cli_live w + 1\<rparr>)
      else (None, w))"

definition free_client :: "world \<Rightarrow> world" where
  "free_client w = w\<lparr>cli_live := cli_live w - 1\<rparr>"

definition bt_att_new :: "bool \<Rightarrow> world \<Rightarrow> bool \<times> world" where
  "bt_att_new ok w =
     (if ok then
        (True, w\<lparr>att_refs := 1, att_close_on_unref := False, att_disconnect_cbs := 0\<rparr>)
      else (False, w))"

definition bt_att_unref :: "bool \<Rightarrow> world \<Rightarrow> world" where
  "bt_att_unref p w =
     (if \<not> p then w
      else if 1 < att_refs w then w\<lparr>att_refs := att_refs w - 1\<rparr>
      else w\<lparr>att_refs := 0, att_disconnect_cbs := 0, att_debug := False,
             att_close_on_unref := False,
             fd_open := (fd_open w \<and> \<not> att_close_on_unref w)\<rparr>)"

definition bt_att_set_close_on_unref :: "bool \<Rightarrow> bool \<Rightarrow> bool \<Rightarrow> world \<Rightarrow> bool \<times> world" where
  "bt_att_set_close_on_unref ok p do_close w =
     (if p \<and> ok then (True, w\<lparr>att_close_on_unref := do_close\<rparr>) else (False, w))"

definition bt_att_register_disconnect :: "bool \<Rightarrow> bool \<Rightarrow> world \<Rightarrow> bool \<times> world" where
  "bt_att_register_disconnect ok p w =
     (if p \<and> ok then (True, w\<lparr>att_disconnect_cbs := att_disconnect_cbs w + 1\<rparr>)
      else (False, w))"

definition gatt_db_new :: "bool \<Rightarrow> world \<Rightarrow> bool \<times> world" where
  "gatt_db_new ok w = (if ok then (True, w\<lparr>db_refs := 1, db_cbs := 0\<rparr>) else (False, w))"

definition gatt_db_unref :: "bool \<Rightarrow> world \<Rightarrow> world" where
  "gatt_db_unref p w =
     (if \<not> p then w
      else if 1 < db_refs w then w\<lparr>db_refs := db_refs w - 1\<rparr>
      else w\<lparr>db_refs := 0, db_cbs := 0\<rparr>)"

definition gatt_db_register :: "bool \<Rightarrow> world \<Rightarrow> world" where
  "gatt_db_register p w = (if p then w\<lparr>db_cbs := db_cbs w + 1\<rparr> else w)"

definition bt_gatt_client_new :: "bool \<Rightarrow> bool \<Rightarrow> bool \<Rightarrow> u16 \<Rightarrow> world \<Rightarrow> bool \<times> world" where
  "bt_gatt_client_new ok dbp attp mtu w =
     (if dbp \<and> attp \<and> ok then
        (True, w\<lparr>gatt_refs := 1, gatt_ready := False, gatt_ready_cbs := 0,
                 gatt_service_changed_cb := False, gatt_debug := False,
                 att_refs := att_refs w + 1, db_refs := db_refs w + 1\<rparr>)
      else (False, w))"


definition bt_att_set_debug :: "bool \<Rightarrow> world \<Rightarrow> world" where
  "bt_att_set_debug p w = (if p then w\<lparr>att_debug := True\<rparr> else w)"

definition bt_gatt_client_set_debug :: "bool \<Rightarrow> world \<Rightarrow> world" where
  "bt_gatt_client_set_debug p w = (if p then w\<lparr>gatt_debug := True\<rparr> else w)"

definition bt_gatt_client_ready_register :: "bool \<Rightarrow> world \<Rightarrow> world" where
  "bt_gatt_client_ready_register p w =
     (if p then w\<lparr>gatt_ready_cbs := gatt_ready_cbs w + 1\<rparr> else w)"

definition bt_gatt_client_set_service_changed :: "bool \<Rightarrow> world \<Rightarrow> world" where
  "bt_gatt_client_set_service_changed p w =
     (if p then w\<lparr>gatt_service_changed_cb := True\<rparr> else w)"

text \<open>
  \<open>client_create(fd, mtu)\<close>, lines 336 to 404: every step with its failure branch as
  written, the messages on \<open>stderr\<close>.
\<close>

definition client_create :: "outcomes \<Rightarrow> int \<Rightarrow> u16 \<Rightarrow> world \<Rightarrow> client option \<times> world" where
  "client_create oc fd0 mtu w =
     (case new0_client (new0_ok oc) w of
        (None, w0) \<Rightarrow> (None, printf (Stderr ''Failed to allocate memory for client'') w0)
      | (Some cli0, w0) \<Rightarrow>
     (case bt_att_new (bt_att_new_ok oc) w0 of (a, w1) \<Rightarrow>
        let cli1 = cli0\<lparr>att := a\<rparr> in
        if \<not> att cli1 then
          (None, free_client (bt_att_unref (att cli1)
                   (printf (Stderr ''Failed to initialze ATT transport layer'') w1)))
        else
     (case bt_att_set_close_on_unref (bt_att_set_close_on_unref_ok oc) (att cli1) True w1 of
        (ok2, w2) \<Rightarrow>
        if \<not> ok2 then
          (None, free_client (bt_att_unref (att cli1)
                   (printf (Stderr ''Failed to set up ATT transport layer'') w2)))
        else
     (case bt_att_register_disconnect (bt_att_register_disconnect_ok oc) (att cli1) w2 of
        (ok3, w3) \<Rightarrow>
        if \<not> ok3 then
          (None, free_client (bt_att_unref (att cli1)
                   (printf (Stderr ''Failed to set ATT disconnect handler'') w3)))
        else
     (case gatt_db_new (gatt_db_new_ok oc) w3 of (d, w4) \<Rightarrow>
        let cli2 = cli1\<lparr>fd := fd0, db := d\<rparr> in
        if \<not> db cli2 then
          (None, free_client (bt_att_unref (att cli2)
                   (printf (Stderr ''Failed to create GATT database'') w4)))
        else
     (case bt_gatt_client_new (bt_gatt_client_new_ok oc) (db cli2) (att cli2) mtu w4 of
        (g, w5) \<Rightarrow>
        let cli3 = cli2\<lparr>gatt := g\<rparr> in
        if \<not> gatt cli3 then
          (None, free_client (bt_att_unref (att cli3) (gatt_db_unref (db cli3)
                   (printf (Stderr ''Failed to create GATT client'') w5))))
        else
          let w6 = gatt_db_register (db cli3) w5;
              w7 = (if verbose w6
                    then bt_gatt_client_set_debug (gatt cli3) (bt_att_set_debug (att cli3) w6)
                    else w6);
              w8 = bt_gatt_client_ready_register (gatt cli3) w7;
              w9 = bt_gatt_client_set_service_changed (gatt cli3) w8;
              w10 = gatt_db_unref (db cli3) w9
          in (Some cli3, w10)))))))"


section \<open>Vocabulary of the specification\<close>

text \<open>
  The four handles that have a decoding branch in \<open>notify_cb\<close> (lines 76, 78, 82, 84).
\<close>

definition sensor_handle :: "u16 \<Rightarrow> bool" where
  "sensor_handle h = (h = 0x001f \<or> h = 0x0022 \<or> h = 0x0025 \<or> h = 0x0028)"

text \<open>
  The minimum payload length the specification's table gives for each sensor handle
  (temperature 2, pressure 5, humidity 1, gas 4). The source holds no such constant;
  the definition follows the specification and is used only to state its claims.
\<close>

definition spec_min_len :: "u16 \<Rightarrow> nat" where
  "spec_min_len h =
     (if h = 0x001f then 2 else if h = 0x0022 then 5
      else if h = 0x0025 then 1 else if h = 0x0028 then 4 else 0)"

text \<open>
  The specification's reading of the pressure integer part: bytes 0 to 3 as an unsigned
  32-bit little-endian number.
\<close>

definition spec_u32_le :: "u8 list \<Rightarrow> nat" where
  "spec_u32_le value =
     unat (value ! 0) + 256 * unat (value ! 1) + 65536 * unat (value ! 2)
       + 16777216 * unat (value ! 3)"


text \<open>
  The leak counters of the test double all at zero: no client block, no transport, no
  database, no GATT client and no callback of theirs is alive.
\<close>

definition no_live_objects :: "world \<Rightarrow> bool" where
  "no_live_objects w =
     (cli_live w = 0 \<and> att_refs w = 0 \<and> att_disconnect_cbs w = 0 \<and> db_refs w = 0
      \<and> db_cbs w = 0 \<and> gatt_refs w = 0 \<and> gatt_ready_cbs w = 0)"

text \<open>
  All six fallible steps of \<open>client_create\<close> succeed.
\<close>

definition all_ok :: "outcomes \<Rightarrow> bool" where
  "all_ok oc =
     (new0_ok oc \<and> bt_att_new_ok oc \<and> bt_att_set_close_on_unref_ok oc
      \<and> bt_att_register_disconnect_ok oc \<and> gatt_db_new_ok oc \<and> bt_gatt_client_new_ok oc)"



text \<open>
  The process as \<open>main\<close> finds it: the globals with their initialisers (lines 41, 42),
  nothing printed, no object alive, the socket open, the GATT client not ready; the
  library would answer a registration with the identifier 1.
\<close>

definition world0 :: world where
  "world0 =
     \<lparr>console = [], thingy_sensor = THINGY_SENSOR_TEMPERATURE, verbose = False,
      gatt_ready = False, notify_id = (\<lambda>h. 1), notify_requests = [], notify_bound = [],
      mainloop_quit_called = False, cli_live = 0, att_refs = 0,
      att_close_on_unref = False, att_disconnect_cbs = 0, att_debug = False, db_refs = 0,
      db_cbs = 0, gatt_refs = 0, gatt_ready_cbs = 0, gatt_service_changed_cb = False,
      gatt_debug = False, fd_open = True\<rparr>"

section \<open>Arithmetic of the byte shifts\<close>

lemma uint_int_of_u8: "uint (int_of_u8 v) = uint v"
  by (simp add: int_of_u8_def uint_up_ucast is_up)

lemma uint_u8_bounds: "0 \<le> uint (v::u8) \<and> uint v < 256"
  using uint_bounded [of v] by simp

lemma bit31_int:
  assumes "0 \<le> (k::int)" and "k < 4294967296"
  shows "bit k 31 \<longleftrightarrow> 2147483648 \<le> k"
proof (cases "k < 2147483648")
  case True
  then have "k div 2147483648 = 0" using assms by simp
  then show ?thesis using True by (simp add: bit_iff_odd)
next
  case False
  then have "(k - 2147483648) div 2147483648 = 0" using assms by simp
  then have "k div 2147483648 = 1"
    using False div_pos_geq [of 2147483648 k] by simp
  then show ?thesis using False by (simp add: bit_iff_odd)
qed

lemma signed_take_bit31_int:
  "0 \<le> (k::int) \<Longrightarrow> k < 4294967296 \<Longrightarrow>
     signed_take_bit 31 k = (if k < 2147483648 then k else k - 4294967296)"
  using signed_take_bit_eq_take_bit_minus [of 31 k] bit31_int [of k]
  by (simp add: take_bit_int_eq_self)

text \<open>What \<open>%d\<close> prints for a C \<open>int\<close> with a given bit pattern.\<close>

lemma sint_c_int:
  "sint (w :: c_int) = (if uint w < 2147483648 then uint w else uint w - 4294967296)"
proof -
  have b: "0 \<le> uint w \<and> uint w < 4294967296" using uint_bounded [of w] by simp
  have "sint w = signed_take_bit 31 (uint w)" by (simp add: sint_uint)
  then show ?thesis using b signed_take_bit31_int [of "uint w"] by simp
qed

lemma sint_int_of_u8: "sint (int_of_u8 v) = uint v"
  using uint_u8_bounds [of v] by (simp add: sint_c_int uint_int_of_u8)

lemma uint_push_bit_w:
  "uint (push_bit n w :: 'a::len word) = take_bit LENGTH('a) (push_bit n (uint w))"
  by transfer (simp add: take_bit_push_bit)

lemma shift_bound: "n \<le> 24 \<Longrightarrow> uint (v::u8) * 2 ^ n < 2 ^ 32"
proof -
  assume n: "n \<le> 24"
  have a: "uint v * 2 ^ n < 256 * 2 ^ n" using uint_u8_bounds [of v] by simp
  have b: "256 * 2 ^ n = (2::int) ^ (8 + n)" by (simp add: power_add)
  have c: "(2::int) ^ (8 + n) \<le> 2 ^ 32"
    using n power_increasing [of "8 + n" 32 "2::int"] by simp
  from a b c show ?thesis by linarith
qed

lemma uint_shift_byte:
  assumes "n \<le> 24"
  shows "uint (push_bit n (int_of_u8 v)) = push_bit n (uint v)"
proof -
  have "uint (push_bit n (int_of_u8 v)) = take_bit 32 (push_bit n (uint v))"
    by (simp add: uint_push_bit_w uint_int_of_u8)
  moreover have "take_bit 32 (push_bit n (uint v)) = push_bit n (uint v)"
    using shift_bound [OF assms, of v] by (simp add: take_bit_int_eq_self push_bit_eq_mult)
  ultimately show ?thesis by simp
qed

lemma or_low: "push_bit n x OR take_bit n d = push_bit n x + take_bit n (d::int)"
proof -
  have "push_bit n x AND take_bit n d = 0"
    by (rule bit_eqI) (auto simp add: bit_simps)
  then show ?thesis by (simp add: disjunctive_add_eq_or)
qed

lemma or_byte: "0 \<le> d \<Longrightarrow> d < 256 \<Longrightarrow> push_bit 8 x OR d = 256 * x + (d::int)"
  using or_low [of 8 x d] by (simp add: take_bit_int_eq_self push_bit_eq_mult)

lemma le32_int:
  assumes "0 \<le> a" "a < 256" "0 \<le> b" "b < 256" "0 \<le> c" "c < 256" "0 \<le> d" "d < 256"
  shows "push_bit 24 a OR push_bit 16 b OR push_bit 8 c OR d
           = 16777216 * a + 65536 * b + 256 * c + (d::int)"
proof -
  have "push_bit 24 a OR push_bit 16 b OR push_bit 8 c OR d
          = push_bit 8 (push_bit 8 (push_bit 8 a OR b) OR c) OR d"
    by (simp add: push_bit_or push_bit_push_bit ac_simps)
  also have "\<dots> = 256 * (256 * (256 * a + b) + c) + d"
    using assms by (simp add: or_byte)
  finally show ?thesis by simp
qed

lemma uint_hpa:
  "uint (push_bit 24 (int_of_u8 v3) OR push_bit 16 (int_of_u8 v2)
           OR push_bit 8 (int_of_u8 v1) OR int_of_u8 v0)
     = 16777216 * uint v3 + 65536 * uint v2 + 256 * uint v1 + uint v0"
proof -
  have "uint (push_bit 24 (int_of_u8 v3) OR push_bit 16 (int_of_u8 v2)
           OR push_bit 8 (int_of_u8 v1) OR int_of_u8 v0)
        = push_bit 24 (uint v3) OR push_bit 16 (uint v2) OR push_bit 8 (uint v1) OR uint v0"
    by (simp only: uint_or uint_shift_byte uint_int_of_u8)
  then show ?thesis
    using uint_u8_bounds [of v0] uint_u8_bounds [of v1] uint_u8_bounds [of v2]
      uint_u8_bounds [of v3]
    by (simp only: le32_int)
qed

lemma uint_u16_le:
  "uint (push_bit 8 (int_of_u8 v1) OR int_of_u8 v0) = 256 * uint v1 + uint v0"
proof -
  have "uint (push_bit 8 (int_of_u8 v1) OR int_of_u8 v0) = push_bit 8 (uint v1) OR uint v0"
    by (simp only: uint_or uint_shift_byte uint_int_of_u8)
  then show ?thesis using uint_u8_bounds [of v0] by (simp only: or_byte)
qed

section \<open>What each branch of the callback prints\<close>

lemma temp_decode:
  "2 \<le> length value \<Longrightarrow>
     notify_cb 0x001f value = Inr [Temp_received (uint (value ! 0)) (uint (value ! 1))]"
  by (auto simp add: notify_cb_def rd_def bind_r_def sint_int_of_u8)

lemma humidity_decode:
  "1 \<le> length value \<Longrightarrow>
     notify_cb 0x0025 value = Inr [Humidity_received (uint (value ! 0))]"
  by (auto simp add: notify_cb_def rd_def bind_r_def sint_int_of_u8)

lemma gas_decode:
  "4 \<le> length value \<Longrightarrow>
     notify_cb 0x0028 value =
       Inr [Gas_received (256 * uint (value ! 1) + uint (value ! 0))
                         (256 * uint (value ! 3) + uint (value ! 2))]"
proof -
  assume len: "4 \<le> length value"
  have small: "256 * uint (a::u8) + uint (b::u8) < 2147483648" for a b
    using uint_u8_bounds [of a] uint_u8_bounds [of b] by simp
  show ?thesis
    using len by (auto simp add: notify_cb_def rd_def bind_r_def sint_c_int uint_u16_le small)
qed

lemma top_byte_decides:
  fixes a r :: int
  assumes "0 \<le> r" and "r < 16777216"
  shows "16777216 * a + r < 2147483648 \<longleftrightarrow> a < 128"
proof (cases "a < 128")
  case True
  then have "a \<le> 127" by simp
  then have "16777216 * a \<le> 16777216 * 127" by (rule mult_left_mono) simp
  then show ?thesis using True assms by simp
next
  case False
  then have "128 \<le> a" by simp
  then have "16777216 * 128 \<le> 16777216 * a" by (rule mult_left_mono) simp
  then show ?thesis using False assms by simp
qed

lemma spec_u32_le_int:
  "int (spec_u32_le value) =
     16777216 * uint (value ! 3)
       + (65536 * uint (value ! 2) + 256 * uint (value ! 1) + uint (value ! 0))"
  by (simp add: spec_u32_le_def)

lemma low_bytes_bound:
  "0 \<le> 65536 * uint (b::u8) + 256 * uint (c::u8) + uint (d::u8)
   \<and> 65536 * uint b + 256 * uint c + uint d < 16777216"
  using uint_u8_bounds [of b] uint_u8_bounds [of c] uint_u8_bounds [of d] by simp

lemma spec_u32_le_top: "int (spec_u32_le value) < 2147483648 \<longleftrightarrow> value ! 3 < 128"
proof -
  have "int (spec_u32_le value) < 2147483648 \<longleftrightarrow> uint (value ! 3) < 128"
    unfolding spec_u32_le_int
    using low_bytes_bound [of "value ! 2" "value ! 1" "value ! 0"]
    by (intro top_byte_decides) simp_all
  then show ?thesis by (simp add: word_less_def)
qed

lemma spec_u32_le_bound: "int (spec_u32_le value) < 4294967296"
proof -
  have "uint (value ! 3) \<le> 255" using uint_u8_bounds [of "value ! 3"] by simp
  then have "16777216 * uint (value ! 3) \<le> 16777216 * 255" by (rule mult_left_mono) simp
  then show ?thesis
    unfolding spec_u32_le_int
    using low_bytes_bound [of "value ! 2" "value ! 1" "value ! 0"] by simp
qed

lemma pressure_decode:
  "5 \<le> length value \<Longrightarrow>
     notify_cb 0x0022 value =
       Inr [Pressure_received
              (if value ! 3 < 128 then int (spec_u32_le value)
               else int (spec_u32_le value) - 4294967296)
              (uint (value ! 4))]"
proof -
  assume len: "5 \<le> length value"
  let ?w = "push_bit 24 (int_of_u8 (value ! 3)) OR push_bit 16 (int_of_u8 (value ! 2))
              OR push_bit 8 (int_of_u8 (value ! 1)) OR int_of_u8 (value ! 0)"
  have u: "uint ?w = int (spec_u32_le value)"
    by (simp only: uint_hpa spec_u32_le_int)
  have s: "sint ?w = (if value ! 3 < 128 then int (spec_u32_le value)
                      else int (spec_u32_le value) - 4294967296)"
    by (simp only: sint_c_int u spec_u32_le_top)
  have "notify_cb 0x0022 value = Inr [Pressure_received (sint ?w) (uint (value ! 4))]"
    using len by (auto simp add: notify_cb_def rd_def bind_r_def sint_int_of_u8)
  then show ?thesis by (simp only: s)
qed

lemma hex_loop_in_bounds:
  "len \<le> length buf \<Longrightarrow> i \<le> len \<Longrightarrow>
     hex_loop buf len i acc = Inr (acc @ map Hex_byte (drop i (take len buf)))"
proof (induction buf len i acc rule: hex_loop.induct)
  case (1 buf len i acc)
  show ?case
  proof (cases "i < len")
    case True
    then have il: "i < length buf" using "1.prems" by simp
    have "hex_loop buf len (i + 1) (acc @ [Hex_byte (buf ! i)])
            = Inr ((acc @ [Hex_byte (buf ! i)]) @ map Hex_byte (drop (i + 1) (take len buf)))"
      using True il "1.prems" by (intro "1.IH") (simp_all add: rd_def)
    moreover have "drop i (take len buf) = buf ! i # drop (i + 1) (take len buf)"
      using True il by (simp add: Cons_nth_drop_Suc [symmetric])
    ultimately show ?thesis
      using True il by (subst hex_loop.simps) (simp add: rd_def)
  next
    case False
    then show ?thesis using "1.prems" by (subst hex_loop.simps) simp
  qed
qed

lemma notify_cb_unbound:
  assumes "\<not> sensor_handle h"
  shows "notify_cb h value =
           Inr (if length value = 0 then [Handle_value h, Zero_bytes]
                else [Handle_value h, Byte_count (length value)]
                       @ map Hex_byte value @ [Newline])"
  using assms by (simp add: notify_cb_def sensor_handle_def hex_loop_in_bounds bind_r_def)

text \<open>
  A sensor payload shorter than the specification's minimum makes the callback read at an
  index at or past the end of the buffer, for every sensor handle and every such length.
\<close>

lemma notify_cb_short:
  assumes "sensor_handle h" and "length value < spec_min_len h"
  shows "\<exists>i\<ge>length value. notify_cb h value = Inl (Out_of_bounds_read i)"
  using assms
  by (auto simp add: sensor_handle_def spec_min_len_def notify_cb_def rd_def bind_r_def Let_def)

section \<open>The handle strings of the readiness callback\<close>

lemma parse_args_hnd:
  "parse_args ''0x001f'' 1 0 = (True, [''0x001f''], 1)"
  "parse_args ''0x0022'' 1 0 = (True, [''0x0022''], 1)"
  "parse_args ''0x0025'' 1 0 = (True, [''0x0025''], 1)"
  "parse_args ''0x0028'' 1 0 = (True, [''0x0028''], 1)"
  by code_simp+

lemma strtol_hnd:
  "strtol ''0x001f'' = (31, [])"
  "strtol ''0x0022'' = (34, [])"
  "strtol ''0x0025'' = (37, [])"
  "strtol ''0x0028'' = (40, [])"
  by code_simp+

section \<open>Unfolding the library double\<close>

lemmas lib_defs = new0_client_def free_client_def bt_att_new_def bt_att_unref_def
  bt_att_set_close_on_unref_def bt_att_register_disconnect_def gatt_db_new_def
  gatt_db_unref_def gatt_db_register_def bt_gatt_client_new_def bt_att_set_debug_def
  bt_gatt_client_set_debug_def bt_gatt_client_ready_register_def
  bt_gatt_client_set_service_changed_def printf_def

section \<open>The branches of the subscription command\<close>

lemma cmd_register_notify_not_ready:
  "\<not> gatt_ready w \<Longrightarrow> cmd_register_notify cmd_str w = printf Gatt_not_initialized w"
  by (simp add: cmd_register_notify_def bt_gatt_client_is_ready_def)

lemma cmd_register_notify_hnd:
  assumes "gatt_ready w"
    and "parse_args cmd_str 1 0 = (True, [arg], 1)"
    and "strtol arg = (l, [])"
    and "(word_of_int l :: u16) = h" and "h \<noteq> 0"
  shows "cmd_register_notify cmd_str w =
           (if notify_id w h = 0
            then printf Register_failed (w\<lparr>notify_requests := notify_requests w @ [h]\<rparr>)
            else w\<lparr>notify_requests := notify_requests w @ [h],
                   notify_bound := notify_bound w @ [h]\<rparr>)"
  using assms
  by (simp add: cmd_register_notify_def bt_gatt_client_is_ready_def
      bt_gatt_client_register_notify_def Let_def)

lemma cmd_register_notify_zero:
  assumes "gatt_ready w"
    and "parse_args cmd_str 1 0 = (True, [arg], 1)"
    and "strtol arg = (l, [])"
    and "(word_of_int l :: u16) = 0"
  shows "cmd_register_notify cmd_str w = printf (Invalid_value_handle arg) w"
  using assms
  by (simp add: cmd_register_notify_def bt_gatt_client_is_ready_def Let_def)

lemma parse_args_zero: "parse_args ''0'' 1 0 = (True, [''0''], 1)"
  by code_simp

lemma strtol_zero: "strtol ''0'' = (0, [])"
  by code_simp






text \<open>On the success path of \<open>client_create\<close> the client ends with the references the GATT
  client holds: two on the transport (the client's and the GATT client's), one on the
  database (the GATT client's, after the controller released its own).\<close>

lemma client_create_succeeds:
  assumes "no_live_objects w" and "all_ok oc"
  shows "fst (client_create oc fd0 mtu w)
           = Some \<lparr>fd = fd0, att = True, db = True, gatt = True, reliable_session_id = 0\<rparr>
         \<and> cli_live (snd (client_create oc fd0 mtu w)) = 1
         \<and> att_refs (snd (client_create oc fd0 mtu w)) = 2
         \<and> db_refs (snd (client_create oc fd0 mtu w)) = 1
         \<and> gatt_refs (snd (client_create oc fd0 mtu w)) = 1"
  using assms
  by (auto simp add: client_create_def all_ok_def no_live_objects_def lib_defs Let_def)

section \<open>Decoding of the documented sample payloads\<close>


text \<open>
  Claim C2. On the minimum-length sample buffers of the specification the callback prints
  exactly the documented numbers: temperature bytes 22, 5 give the parts 22 and 5;
  pressure bytes 0x10, 0x27, 0, 0, 3 give 10000 and 3; the humidity byte 45 gives 45;
  gas bytes 0xE8, 0x03, 0x2C, 0x01 give eCO2 1000 and TVOC 300.
\<close>

theorem notify_cb_documented_samples:
  "notify_cb 0x001f [22, 5] = Inr [Temp_received 22 5]
   \<and> notify_cb 0x0022 [0x10, 0x27, 0x00, 0x00, 3] = Inr [Pressure_received 10000 3]
   \<and> notify_cb 0x0025 [45] = Inr [Humidity_received 45]
   \<and> notify_cb 0x0028 [0xE8, 0x03, 0x2C, 0x01] = Inr [Gas_received 1000 300]"
  by (simp add: notify_cb_def rd_def bind_r_def int_of_u8_def)


section \<open>Payloads shorter than the minimum length\<close>

text \<open>
  Claim C1 asks that a sensor payload one byte shorter than the minimum is rejected
  without a read at or past the end of the buffer. The callback has no length check in
  its sensor branches: at length \<open>min_len - 1\<close> each of the four branches reads past the
  end. Temperature with one byte reads index 1, pressure with four bytes reads index 4,
  humidity with no byte reads index 0, gas with three bytes reads index 3.
\<close>

theorem notify_cb_short_buffer_reads_past_end:
  "notify_cb 0x001f [22] = Inl (Out_of_bounds_read 1)
   \<and> notify_cb 0x0022 [0x10, 0x27, 0x00, 0x00] = Inl (Out_of_bounds_read 4)
   \<and> notify_cb 0x0025 [] = Inl (Out_of_bounds_read 0)
   \<and> notify_cb 0x0028 [0xE8, 0x03, 0x2C] = Inl (Out_of_bounds_read 3)"
  by (simp add: notify_cb_def rd_def bind_r_def)

section \<open>The pressure integer part\<close>

text \<open>
  Claim C3 as stated (the integer part is the unsigned 32-bit value of bytes 0 to 3) fails:
  with byte 3 equal to 0x80 the unsigned value is 2147483648, and the callback prints
  -2147483648.
\<close>

theorem pressure_top_bit_prints_negative:
  "notify_cb 0x0022 [0x00, 0x00, 0x00, 0x80, 0x00] = Inr [Pressure_received (- 2147483648) 0]
   \<and> spec_u32_le [0x00, 0x00, 0x00, 0x80, 0x00] = 2147483648"
  by (simp add: notify_cb_def rd_def bind_r_def int_of_u8_def spec_u32_le_def)

text \<open>
  Claim C3, amended. For every pressure payload of five bytes or more the printed integer
  part is the signed 32-bit (two's complement) reading of bytes 0 to 3: it equals the
  unsigned little-endian value when byte 3 is below 0x80, and that value minus \<open>2^32\<close>
  (a negative number) when the top bit of byte 3 is set. It always lies between
  -2147483648 and 2147483647. The fractional part is byte 4.
\<close>

theorem pressure_integer_part_is_signed:
  assumes "5 \<le> length value"
  shows "\<exists>hpa. notify_cb 0x0022 value = Inr [Pressure_received hpa (uint (value ! 4))]
           \<and> hpa = (if value ! 3 < 128 then int (spec_u32_le value)
                     else int (spec_u32_le value) - 4294967296)
           \<and> - 2147483648 \<le> hpa \<and> hpa < 2147483648"
proof (cases "value ! 3 < 128")
  case True
  then have "int (spec_u32_le value) < 2147483648" by (simp only: spec_u32_le_top)
  then show ?thesis using True pressure_decode [OF assms] by simp
next
  case False
  then have "2147483648 \<le> int (spec_u32_le value)"
    using spec_u32_le_top [of "value"] by simp
  then show ?thesis
    using False pressure_decode [OF assms] spec_u32_le_bound [of "value"] by simp
qed

theorem pressure_integer_part_is_signed_witness:
  "5 \<le> length [0x00, 0x00, 0x00, 0x80, 0x07 :: u8]
   \<and> (\<exists>hpa. notify_cb 0x0022 [0x00, 0x00, 0x00, 0x80, 0x07]
                = Inr [Pressure_received hpa (uint ([0x00, 0x00, 0x00, 0x80, 0x07 :: u8] ! 4))]
          \<and> hpa = - 2147483648)"
  using pressure_integer_part_is_signed [of "[0x00, 0x00, 0x00, 0x80, 0x07]"]
  by (simp add: spec_u32_le_def)

section \<open>Bytes beyond the minimum length\<close>

text \<open>
  Claim C8. For each of the four sensor handles and every buffer at least as long as the
  minimum length of that handle, the callback prints the same reading for the buffer and
  for its minimum-length prefix, and it does print a reading: the bytes after the
  minimum length are never looked at.
\<close>

theorem notify_cb_ignores_excess_bytes:
  assumes "sensor_handle h" and "spec_min_len h \<le> length value"
  shows "notify_cb h value = notify_cb h (take (spec_min_len h) value)
         \<and> (\<exists>printed. notify_cb h value = Inr printed)"
proof -
  consider "h = 0x001f" | "h = 0x0022" | "h = 0x0025" | "h = 0x0028"
    using assms(1) by (auto simp add: sensor_handle_def)
  then show ?thesis
  proof cases
    case 1
    then have "2 \<le> length value" using assms(2) by (simp add: spec_min_len_def)
    then show ?thesis using 1 by (simp add: temp_decode spec_min_len_def)
  next
    case 2
    then have "5 \<le> length value" using assms(2) by (simp add: spec_min_len_def)
    then show ?thesis
      using 2 by (simp add: pressure_decode spec_min_len_def spec_u32_le_def)
  next
    case 3
    then have "1 \<le> length value" using assms(2) by (simp add: spec_min_len_def)
    then show ?thesis using 3 by (simp add: humidity_decode spec_min_len_def)
  next
    case 4
    then have "4 \<le> length value" using assms(2) by (simp add: spec_min_len_def)
    then show ?thesis using 4 by (simp add: gas_decode spec_min_len_def)
  qed
qed

theorem notify_cb_ignores_excess_bytes_witness:
  "sensor_handle 0x0028
   \<and> spec_min_len 0x0028 \<le> length [0xE8, 0x03, 0x2C, 0x01, 0xFF, 0x7F :: u8]
   \<and> notify_cb 0x0028 [0xE8, 0x03, 0x2C, 0x01, 0xFF, 0x7F]
       = notify_cb 0x0028 (take (spec_min_len 0x0028) [0xE8, 0x03, 0x2C, 0x01, 0xFF, 0x7F])
   \<and> notify_cb 0x0028 [0xE8, 0x03, 0x2C, 0x01, 0xFF, 0x7F] = Inr [Gas_received 1000 300]"
  using notify_cb_ignores_excess_bytes [of "0x0028" "[0xE8, 0x03, 0x2C, 0x01, 0xFF, 0x7F]"]
  by (simp add: sensor_handle_def spec_min_len_def notify_cb_def rd_def bind_r_def
      int_of_u8_def)

section \<open>Notifications on a handle without decoder\<close>

text \<open>
  Claim C7. For every notification whose handle is none of the four sensor handles, and
  for every payload including the empty one, the callback returns normally and the only
  change of the state is the raw diagnostic on the console: the handle, then
  \<open>(0 bytes)\<close> for an empty payload, otherwise the byte count, every byte in hexadecimal
  and a line feed. Requests, bindings and every other part of the state stay as they
  were.
\<close>

theorem unbound_handle_raw_diagnostic:
  "\<not> sensor_handle h \<Longrightarrow>
     deliver (Ev_notify h value) w =
       Inr (w\<lparr>console := console w @
                 (if length value = 0 then [Handle_value h, Zero_bytes]
                  else [Handle_value h, Byte_count (length value)]
                         @ map Hex_byte value @ [Newline])\<rparr>)"
  by (simp add: notify_cb_unbound bind_r_def)

theorem unbound_handle_raw_diagnostic_witness:
  "\<not> sensor_handle 0x0030
   \<and> deliver (Ev_notify 0x0030 [0xDE, 0xAD]) world0
       = Inr (world0\<lparr>console := [Handle_value 0x0030, Byte_count 2, Hex_byte 0xDE,
                                    Hex_byte 0xAD, Newline]\<rparr>)
   \<and> deliver (Ev_notify 0x0030 []) world0
       = Inr (world0\<lparr>console := [Handle_value 0x0030, Zero_bytes]\<rparr>)"
  using unbound_handle_raw_diagnostic [of "0x0030" "[0xDE, 0xAD]" world0]
    unbound_handle_raw_diagnostic [of "0x0030" "[]" world0]
  by (simp add: sensor_handle_def world0_def)

section \<open>Subscription while the GATT client is not ready\<close>

text \<open>
  Claim C10. When \<open>cmd_register_notify\<close> is called while the GATT client is not ready, it
  prints its diagnostic and returns: whatever the command string is (it is not parsed and
  the handle not validated), the state changes only by that line on the console, so no
  registration request is issued.
\<close>

theorem cmd_register_notify_not_ready_returns:
  "\<not> gatt_ready w \<Longrightarrow>
     cmd_register_notify cmd_str w = w\<lparr>console := console w @ [Gatt_not_initialized]\<rparr>"
  by (simp add: cmd_register_notify_not_ready printf_def)

theorem cmd_register_notify_not_ready_returns_witness:
  "\<not> gatt_ready world0
   \<and> cmd_register_notify ''not-a-handle'' world0
       = world0\<lparr>console := [Gatt_not_initialized]\<rparr>
   \<and> notify_requests (cmd_register_notify ''not-a-handle'' world0) = []"
  using cmd_register_notify_not_ready_returns [of world0 "''not-a-handle''"]
  by (simp add: world0_def)

section \<open>Failures of the subscription command\<close>

text \<open>
  Claim C6 as stated (a zero handle is always answered with the invalid-handle failure)
  fails while the GATT client is not ready: the command \<open>0\<close> is then answered with
  \<open>GATT client not initialized\<close>, before the handle is looked at.
\<close>

theorem cmd_register_notify_zero_handle_not_ready:
  "parse_args ''0'' 1 0 = (True, [''0''], 1) \<and> strtol ''0'' = (0, [])
   \<and> cmd_register_notify ''0'' world0 = world0\<lparr>console := [Gatt_not_initialized]\<rparr>"
  by (simp add: parse_args_zero strtol_zero cmd_register_notify_def
      bt_gatt_client_is_ready_def printf_def world0_def)

text \<open>
  Claim C6, amended. While the GATT client is ready: a command whose one token converts
  to the handle zero is answered with the invalid-handle line and nothing else changes,
  so the library receives no registration request; a command with a non-zero handle for
  which the library returns the identifier 0 is answered with the failed-registration
  line, the request having been made. In both cases no handle is bound and the main loop
  is not stopped.
\<close>

theorem cmd_register_notify_failures_when_ready:
  "(gatt_ready w \<and> parse_args cmd_str 1 0 = (True, [arg], 1) \<and> strtol arg = (l, [])
      \<and> (word_of_int l :: u16) = 0 \<longrightarrow>
        cmd_register_notify cmd_str w
          = w\<lparr>console := console w @ [Invalid_value_handle arg]\<rparr>)
   \<and> (gatt_ready w \<and> parse_args cmd_str 1 0 = (True, [arg], 1) \<and> strtol arg = (l, [])
      \<and> (word_of_int l :: u16) \<noteq> 0 \<and> notify_id w (word_of_int l) = 0 \<longrightarrow>
        cmd_register_notify cmd_str w =
          w\<lparr>console := console w @ [Register_failed],
            notify_requests := notify_requests w @ [word_of_int l]\<rparr>)"
proof -
  have a: "cmd_register_notify cmd_str w
             = w\<lparr>console := console w @ [Invalid_value_handle arg]\<rparr>"
    if "gatt_ready w" "parse_args cmd_str 1 0 = (True, [arg], 1)" "strtol arg = (l, [])"
      "(word_of_int l :: u16) = 0"
    using cmd_register_notify_zero [OF that] by (simp add: printf_def)
  have b: "cmd_register_notify cmd_str w =
          w\<lparr>console := console w @ [Register_failed],
            notify_requests := notify_requests w @ [word_of_int l]\<rparr>"
    if "gatt_ready w" "parse_args cmd_str 1 0 = (True, [arg], 1)" "strtol arg = (l, [])"
      "(word_of_int l :: u16) \<noteq> 0" "notify_id w (word_of_int l) = 0"
    using cmd_register_notify_hnd [OF that(1) that(2) that(3) refl that(4)] that(5)
    by (simp add: printf_def)
  show ?thesis using a b by blast
qed

theorem cmd_register_notify_failures_when_ready_witness:
  "gatt_ready (world0\<lparr>gatt_ready := True, notify_id := (\<lambda>h. 0)\<rparr>)
   \<and> parse_args ''0'' 1 0 = (True, [''0''], 1) \<and> strtol ''0'' = (0, [])
   \<and> (word_of_int 0 :: u16) = 0
   \<and> cmd_register_notify ''0'' (world0\<lparr>gatt_ready := True, notify_id := (\<lambda>h. 0)\<rparr>)
       = world0\<lparr>gatt_ready := True, notify_id := (\<lambda>h. 0),
                console := [Invalid_value_handle ''0'']\<rparr>
   \<and> parse_args ''0x001f'' 1 0 = (True, [''0x001f''], 1) \<and> strtol ''0x001f'' = (31, [])
   \<and> (word_of_int 31 :: u16) \<noteq> 0
   \<and> notify_id (world0\<lparr>gatt_ready := True, notify_id := (\<lambda>h. 0)\<rparr>) (word_of_int 31) = 0
   \<and> cmd_register_notify ''0x001f'' (world0\<lparr>gatt_ready := True, notify_id := (\<lambda>h. 0)\<rparr>)
       = world0\<lparr>gatt_ready := True, notify_id := (\<lambda>h. 0), console := [Register_failed],
                notify_requests := [0x001f]\<rparr>"
  using cmd_register_notify_failures_when_ready
      [of "world0\<lparr>gatt_ready := True, notify_id := (\<lambda>h. 0)\<rparr>" "''0''" "''0''" 0]
    cmd_register_notify_failures_when_ready
      [of "world0\<lparr>gatt_ready := True, notify_id := (\<lambda>h. 0)\<rparr>" "''0x001f''" "''0x001f''" 31]
  by (simp add: parse_args_zero strtol_zero parse_args_hnd strtol_hnd world0_def)

section \<open>The readiness callback\<close>




section \<open>A sensor selector outside the four channels\<close>




section \<open>Failure of a setup step\<close>

text \<open>
  Claim C5. Starting with no object alive, if any of the fallible steps of
  \<open>client_create\<close> fails (the allocation of the client block, the transport, its
  close-on-unref setting, the disconnect handler, the database, the GATT client), the
  function returns NULL and every object the earlier steps created has been released:
  no client block, no reference to the transport, the database or the GATT client and
  no callback is left.
\<close>

theorem client_create_failure_releases_all:
  assumes "no_live_objects w" and "\<not> all_ok oc"
  shows "fst (client_create oc fd0 mtu w) = None
         \<and> no_live_objects (snd (client_create oc fd0 mtu w))"
  using assms
  by (auto simp add: client_create_def all_ok_def no_live_objects_def lib_defs Let_def)

theorem client_create_failure_releases_all_witness:
  "no_live_objects world0
   \<and> \<not> all_ok \<lparr>new0_ok = True, bt_att_new_ok = True, bt_att_set_close_on_unref_ok = True,
               bt_att_register_disconnect_ok = True, gatt_db_new_ok = True,
               bt_gatt_client_new_ok = False\<rparr>
   \<and> client_create \<lparr>new0_ok = True, bt_att_new_ok = True, bt_att_set_close_on_unref_ok = True,
               bt_att_register_disconnect_ok = True, gatt_db_new_ok = True,
               bt_gatt_client_new_ok = False\<rparr> 3 0 world0
       = (None, world0\<lparr>console := [Stderr ''Failed to create GATT client''],
                       fd_open := False\<rparr>)
   \<and> \<not> all_ok \<lparr>new0_ok = True, bt_att_new_ok = False, bt_att_set_close_on_unref_ok = True,
               bt_att_register_disconnect_ok = True, gatt_db_new_ok = True,
               bt_gatt_client_new_ok = True\<rparr>
   \<and> client_create \<lparr>new0_ok = True, bt_att_new_ok = False, bt_att_set_close_on_unref_ok = True,
               bt_att_register_disconnect_ok = True, gatt_db_new_ok = True,
               bt_gatt_client_new_ok = True\<rparr> 3 0 world0
       = (None, world0\<lparr>console := [Stderr ''Failed to initialze ATT transport layer'']\<rparr>)"
  using client_create_failure_releases_all
      [of world0 "\<lparr>new0_ok = True, bt_att_new_ok = True, bt_att_set_close_on_unref_ok = True,
               bt_att_register_disconnect_ok = True, gatt_db_new_ok = True,
               bt_gatt_client_new_ok = False\<rparr>" 3 0]
    client_create_failure_releases_all
      [of world0 "\<lparr>new0_ok = True, bt_att_new_ok = False, bt_att_set_close_on_unref_ok = True,
               bt_att_register_disconnect_ok = True, gatt_db_new_ok = True,
               bt_gatt_client_new_ok = True\<rparr>" 3 0]
  by (simp add: client_create_def all_ok_def no_live_objects_def lib_defs Let_def world0_def)

end
